theory Spec2Isabelle
  imports Complex_Main
begin

section \<open>Data model (src/types/index.ts)\<close>

text \<open>
  The rule is TypeScript: its types are erased when it runs, and what \<open>analyze\<close> receives
  is a JavaScript object, whose \<open>metrics\<close> were read from JSON. A JavaScript number is
  modelled by a rational (pixel sizes may be fractional; \<open>NaN\<close> and the infinities are left
  out), a string by \<open>string\<close>. A property that the declared type requires but that may be
  absent from the object at run time is an \<open>option\<close>: \<open>None\<close> is the value \<open>undefined\<close> (or
  \<open>null\<close>), and reading a property of it raises a \<open>TypeError\<close>.

  Field names are the source's. Where a name is already a constant of HOL (\<open>id\<close>,
  \<open>size\<close>, \<open>top\<close>), a keyword (\<open>text\<close>) or used by two object types (\<open>height\<close>),
  it carries the name of its object as a prefix.
\<close>

record Position =
  position_top :: rat
  left :: rat

record Size =
  width :: rat
  height :: rat

text \<open>
  \<open>Finding.evidence\<close> is a \<open>Record<string, any>\<close>: an object whose keys keep their
  insertion order and whose values are arbitrary JavaScript values. \<open>JSize s\<close> is the
  \<open>size\<close> object of a button, as the input has it.
\<close>

datatype jsvalue =
    JUndefined
  | JNumber rat
  | JString string
  | JBoolean bool
  | JArray "jsvalue list"
  | JObject "(string \<times> jsvalue) list"
  | JSize Size

record CTAButton =
  cta_text :: string
  selector :: string
  position :: Position
  cta_size :: Size
  prominent :: bool

text \<open>
  What \<open>aboveFold.ctaButtons\<close> holds at run time: nothing (\<open>undefined\<close> or \<open>null\<close>); an
  array, each element of which is a button object or \<open>null\<close>; or another JSON value (an
  object, a string, a number, a boolean). Such a value has no \<open>filter\<close> method, and is
  given by what reading its \<open>length\<close> property yields: \<open>JUndefined\<close> for \<open>{}\<close>,
  \<open>JNumber 0\<close> for the empty string.
  An element of the array that is not \<open>null\<close> is taken to be a button object with the
  fields of \<open>CTAButton\<close>.
\<close>

datatype ctaButtons_value =
    CtaUndefined
  | CtaNonArray jsvalue
  | CtaArray "CTAButton option list"

record AboveFold =
  ctaButtons :: ctaButtons_value
  aboveFold_height :: "rat option"

record Performance =
  loadTime :: rat

record PageMetrics =
  aboveFold :: "AboveFold option"
  performance :: Performance

datatype Severity = High | Med | Low

text \<open>
  The optional properties \<open>recommendation\<close> and \<open>page\<close> of a \<open>Finding\<close> are never set
  by the rule and are left out, as is the untyped \<open>crawl\<close> of a \<open>Page\<close>.
\<close>

record Finding =
  finding_id :: string
  pageId :: string
  ruleId :: string
  severity :: Severity
  evidence :: "(string \<times> jsvalue) list"

record Page =
  page_id :: string
  crawlId :: string
  url :: string
  type :: string
  metrics :: PageMetrics
  findings :: "Finding list"

record HeuristicResult =
  passed :: bool
  score :: int
  finding :: "Finding option"
  skipped :: "bool option"
  reason :: "string option"

datatype error = TypeError

section \<open>The Hero CTA rule (lib/heuristics/hero-cta.ts)\<close>

subsection \<open>Rule configuration constants and metadata\<close>

definition APPLICABLE_PAGE_TYPES :: "string list" where
  "APPLICABLE_PAGE_TYPES = [''home'', ''product'']"

text \<open>
  The source has the double nearest to \<open>0.47\<close>; its product with \<open>15\<close> is within
  \<open>10\<^sup>-\<^sup>1\<^sup>4\<close> of \<open>7.05\<close>, so that \<open>Math.floor\<close> gives on it what \<open>floor\<close> gives on the
  rational \<open>15 * 47 / 100\<close>.
\<close>

definition WEAK_CTA_SCORE_RATIO :: rat where
  "WEAK_CTA_SCORE_RATIO = 47 / 100"

definition MIN_PROMINENT_WIDTH :: rat where
  "MIN_PROMINENT_WIDTH = 120"

definition MIN_PROMINENT_HEIGHT :: rat where
  "MIN_PROMINENT_HEIGHT = 35"

definition HeroCTARule_ruleId :: string where
  "HeroCTARule_ruleId = ''hero_cta_detection''"

definition maxScore :: int where
  "maxScore = 15"

subsection \<open>The clock and the template literal\<close>

text \<open>
  \<open>Date.now()\<close> is the number of milliseconds since the epoch, a natural number that
  the caller of a model function passes as \<open>now\<close>. A template literal writes it in
  decimal.
\<close>

definition digit_char :: "nat \<Rightarrow> char" where
  "digit_char d = ''0123456789'' ! d"

fun number_toString :: "nat \<Rightarrow> string" where
  "number_toString n =
     (if n < 10 then [digit_char n]
      else number_toString (n div 10) @ [digit_char (n mod 10)])"

declare number_toString.simps [simp del]

text \<open>Reading a decimal numeral back, to say what \<open>number_toString\<close> writes.\<close>

definition digit_value :: "char \<Rightarrow> nat" where
  "digit_value c = of_char c - 48"

definition decimal_value :: "string \<Rightarrow> nat" where
  "decimal_value s = foldl (\<lambda>a c. 10 * a + digit_value c) 0 s"

subsection \<open>Helper methods\<close>

definition isProminentCTA :: "CTAButton \<Rightarrow> bool" where
  "isProminentCTA cta \<longleftrightarrow>
     width (cta_size cta) \<ge> MIN_PROMINENT_WIDTH \<and>
     height (cta_size cta) \<ge> MIN_PROMINENT_HEIGHT \<and>
     prominent cta"

definition isApplicablePageType :: "string \<Rightarrow> bool" where
  "isApplicablePageType pageType \<longleftrightarrow> pageType \<in> set APPLICABLE_PAGE_TYPES"

definition createSkippedResult :: HeuristicResult where
  "createSkippedResult =
     \<lparr>passed = False,
      score = 0,
      finding = None,
      skipped = Some True,
      reason = Some ''Rule only applies to home and product pages''\<rparr>"

definition createFinding ::
  "nat \<Rightarrow> Page \<Rightarrow> string \<Rightarrow> Severity \<Rightarrow> (string \<times> jsvalue) list \<Rightarrow> Finding" where
  "createFinding now page rid sev ev =
     \<lparr>finding_id = rid @ ''-'' @ page_id page @ ''-'' @ number_toString now,
      pageId = page_id page,
      ruleId = rid,
      severity = sev,
      evidence = ev\<rparr>"

definition createMissingCTAResult :: "nat \<Rightarrow> Page \<Rightarrow> error + HeuristicResult" where
  "createMissingCTAResult now page =
     (case aboveFold (metrics page) of
        None \<Rightarrow> Inl TypeError
      | Some af \<Rightarrow>
          Inr \<lparr>passed = False,
               score = 0,
               finding = Some (createFinding now page ''hero_cta_missing'' High
                 [(''ctaCount'', JNumber 0),
                  (''pageType'', JString (type page)),
                  (''aboveFoldHeight'',
                     (case aboveFold_height af of
                        None \<Rightarrow> JUndefined
                      | Some h \<Rightarrow> JNumber h))]),
               skipped = None,
               reason = None\<rparr>)"

definition createSuccessResult :: HeuristicResult where
  "createSuccessResult =
     \<lparr>passed = True,
      score = maxScore,
      finding = None,
      skipped = None,
      reason = None\<rparr>"

definition weakCTA :: "CTAButton \<Rightarrow> jsvalue" where
  "weakCTA cta =
     JObject [(''text'', JString (cta_text cta)),
              (''size'', JSize (cta_size cta)),
              (''prominent'', JBoolean (prominent cta))]"

definition createWeakCTAResult :: "nat \<Rightarrow> Page \<Rightarrow> CTAButton list \<Rightarrow> HeuristicResult" where
  "createWeakCTAResult now page ctas =
     \<lparr>passed = False,
      score = \<lfloor>of_int maxScore * WEAK_CTA_SCORE_RATIO\<rfloor>,
      finding = Some (createFinding now page ''hero_cta_weak'' Med
        [(''ctaCount'', JNumber (of_nat (length ctas))),
         (''prominentCount'', JNumber 0),
         (''weakCTAs'', JArray (map weakCTA ctas))]),
      skipped = None,
      reason = None\<rparr>"

subsection \<open>analyze\<close>

text \<open>
  The callback of \<open>ctaButtons.filter\<close> reads \<open>cta.prominent\<close> of every element of the
  array, in order: the first \<open>null\<close> element raises a \<open>TypeError\<close>.
\<close>

fun read_elements :: "CTAButton option list \<Rightarrow> error + CTAButton list" where
  "read_elements [] = Inr []"
| "read_elements (None # es) = Inl TypeError"
| "read_elements (Some cta # es) =
     (case read_elements es of
        Inl e \<Rightarrow> Inl e
      | Inr ctas \<Rightarrow> Inr (cta # ctas))"

text \<open>
  On a value that is not an array, \<open>ctaButtons.length === 0\<close> compares what its
  \<open>length\<close> property yields, and \<open>ctaButtons.filter(...)\<close> calls \<open>undefined\<close>.
\<close>

definition analyze :: "nat \<Rightarrow> Page \<Rightarrow> error + HeuristicResult" where
  "analyze now page =
     (if \<not> isApplicablePageType (type page) then Inr createSkippedResult
      else
        case aboveFold (metrics page) of
          None \<Rightarrow> Inl TypeError
        | Some af \<Rightarrow>
            (case ctaButtons af of
               CtaUndefined \<Rightarrow> Inl TypeError
             | CtaNonArray len \<Rightarrow>
                 if len = JNumber 0 then createMissingCTAResult now page
                 else Inl TypeError
             | CtaArray elements \<Rightarrow>
                 if length elements = 0 then createMissingCTAResult now page
                 else
                   (case read_elements elements of
                      Inl e \<Rightarrow> Inl e
                    | Inr ctas \<Rightarrow>
                        let prominentCTAs = filter (\<lambda>cta. prominent cta) ctas in
                        if length prominentCTAs > 0 then Inr createSuccessResult
                        else Inr (createWeakCTAResult now page ctas))))"

section \<open>Example inputs\<close>

text \<open>The pages and buttons of the test suite (\<open>__tests__/heuristics.test.ts\<close>).\<close>

definition prominentCTA :: CTAButton where
  "prominentCTA =
     \<lparr>cta_text = ''Shop Now'', selector = ''.hero-cta'',
      position = \<lparr>position_top = 300, left = 400\<rparr>,
      cta_size = \<lparr>width = 200, height = 50\<rparr>,
      prominent = True\<rparr>"

definition smallCTA :: CTAButton where
  "smallCTA =
     \<lparr>cta_text = ''Learn more'', selector = ''.small-link'',
      position = \<lparr>position_top = 600, left = 100\<rparr>,
      cta_size = \<lparr>width = 80, height = 20\<rparr>,
      prominent = False\<rparr>"

definition test_page :: "string \<Rightarrow> string \<Rightarrow> AboveFold option \<Rightarrow> Page" where
  "test_page pid ty af =
     \<lparr>page_id = pid, crawlId = ''test-crawl-1'',
      url = ''https://test-store.myshopify.com'', type = ty,
      metrics = \<lparr>aboveFold = af, performance = \<lparr>loadTime = 1000\<rparr>\<rparr>,
      findings = []\<rparr>"

definition pageWithoutCTA :: Page where
  "pageWithoutCTA =
     test_page ''test-page-1'' ''home''
       (Some \<lparr>ctaButtons = CtaArray [], aboveFold_height = Some 800\<rparr>)"

definition pageWithCTA :: Page where
  "pageWithCTA =
     test_page ''test-page-2'' ''home''
       (Some \<lparr>ctaButtons = CtaArray [Some prominentCTA], aboveFold_height = Some 800\<rparr>)"

definition pageWithWeakCTA :: Page where
  "pageWithWeakCTA =
     test_page ''test-page-3'' ''home''
       (Some \<lparr>ctaButtons = CtaArray [Some smallCTA], aboveFold_height = Some 800\<rparr>)"

definition collectionPage :: Page where
  "collectionPage =
     test_page ''test-page-4'' ''collection''
       (Some \<lparr>ctaButtons = CtaArray [], aboveFold_height = Some 800\<rparr>)"

text \<open>
  Further inputs: a large button that the extractor did not flag, a flagged button below
  the geometric minimum, pages that hold them, objects in which \<open>aboveFold\<close>,
  \<open>ctaButtons\<close> or \<open>height\<close> is absent, objects in which \<open>ctaButtons\<close> is \<open>{}\<close>, the
  empty string or an array with a \<open>null\<close> element, and a copy of the first page of the
  test suite under another \<open>id\<close>.
\<close>

definition largeUnflaggedCTA :: CTAButton where
  "largeUnflaggedCTA =
     \<lparr>cta_text = ''Add to cart'', selector = ''.buy'',
      position = \<lparr>position_top = 300, left = 400\<rparr>,
      cta_size = \<lparr>width = 300, height = 60\<rparr>,
      prominent = False\<rparr>"

definition flaggedSmallCTA :: CTAButton where
  "flaggedSmallCTA =
     \<lparr>cta_text = ''Go'', selector = ''.tiny'',
      position = \<lparr>position_top = 10, left = 10\<rparr>,
      cta_size = \<lparr>width = 50, height = 10\<rparr>,
      prominent = True\<rparr>"

definition pageWithFlaggedSmallCTA :: Page where
  "pageWithFlaggedSmallCTA =
     test_page ''test-page-5'' ''home''
       (Some \<lparr>ctaButtons = CtaArray [Some flaggedSmallCTA], aboveFold_height = Some 800\<rparr>)"

definition productPageMixedCTAs :: Page where
  "productPageMixedCTAs =
     test_page ''test-page-6'' ''product''
       (Some \<lparr>ctaButtons = CtaArray [Some largeUnflaggedCTA, Some flaggedSmallCTA],
              aboveFold_height = Some 800\<rparr>)"

definition pageWithoutAboveFold :: Page where
  "pageWithoutAboveFold = test_page ''test-page-7'' ''home'' None"

definition pageWithoutCtaButtons :: Page where
  "pageWithoutCtaButtons =
     test_page ''test-page-8'' ''product''
       (Some \<lparr>ctaButtons = CtaUndefined, aboveFold_height = Some 800\<rparr>)"

definition pageWithoutHeight :: Page where
  "pageWithoutHeight =
     test_page ''test-page-10'' ''home''
       (Some \<lparr>ctaButtons = CtaArray [], aboveFold_height = None\<rparr>)"

definition pageWithNullElement :: Page where
  "pageWithNullElement =
     test_page ''test-page-11'' ''home''
       (Some \<lparr>ctaButtons = CtaArray [Some prominentCTA, None],
              aboveFold_height = Some 800\<rparr>)"

definition pageWithObjectForCtaButtons :: Page where
  "pageWithObjectForCtaButtons =
     test_page ''test-page-12'' ''home''
       (Some \<lparr>ctaButtons = CtaNonArray JUndefined, aboveFold_height = Some 800\<rparr>)"

definition pageWithEmptyStringForCtaButtons :: Page where
  "pageWithEmptyStringForCtaButtons =
     test_page ''test-page-13'' ''home''
       (Some \<lparr>ctaButtons = CtaNonArray (JNumber 0), aboveFold_height = Some 800\<rparr>)"

definition pageWithoutCTA_otherId :: Page where
  "pageWithoutCTA_otherId =
     test_page ''test-page-14'' ''home''
       (Some \<lparr>ctaButtons = CtaArray [], aboveFold_height = Some 800\<rparr>)"

definition collectionPageWithoutAboveFold :: Page where
  "collectionPageWithoutAboveFold = test_page ''test-page-9'' ''collection'' None"

lemmas example_defs =
  prominentCTA_def smallCTA_def largeUnflaggedCTA_def flaggedSmallCTA_def test_page_def
  pageWithoutCTA_def pageWithCTA_def pageWithWeakCTA_def collectionPage_def
  pageWithFlaggedSmallCTA_def productPageMixedCTAs_def pageWithoutAboveFold_def
  pageWithoutCtaButtons_def pageWithoutHeight_def collectionPageWithoutAboveFold_def
  pageWithNullElement_def pageWithObjectForCtaButtons_def
  pageWithEmptyStringForCtaButtons_def pageWithoutCTA_otherId_def

section \<open>Facts about the rule\<close>

lemma isApplicablePageType_iff:
  "isApplicablePageType s \<longleftrightarrow> s = ''home'' \<or> s = ''product''"
  by (auto simp: isApplicablePageType_def APPLICABLE_PAGE_TYPES_def)

lemma weak_score: "\<lfloor>of_int maxScore * WEAK_CTA_SCORE_RATIO\<rfloor> = (7::int)"
  by (simp add: maxScore_def WEAK_CTA_SCORE_RATIO_def floor_eq_iff)

lemma createWeakCTAResult_eq:
  "createWeakCTAResult now page ctas =
     \<lparr>passed = False,
      score = 7,
      finding = Some
        \<lparr>finding_id = ''hero_cta_weak'' @ ''-'' @ page_id page @ ''-'' @ number_toString now,
         pageId = page_id page,
         ruleId = ''hero_cta_weak'',
         severity = Med,
         evidence =
           [(''ctaCount'', JNumber (of_nat (length ctas))),
            (''prominentCount'', JNumber 0),
            (''weakCTAs'', JArray (map weakCTA ctas))]\<rparr>,
      skipped = None,
      reason = None\<rparr>"
  by (simp add: createWeakCTAResult_def createFinding_def weak_score)

lemmas rule_defs =
  analyze_def isApplicablePageType_def APPLICABLE_PAGE_TYPES_def createSkippedResult_def
  createMissingCTAResult_def createSuccessResult_def createWeakCTAResult_eq
  createFinding_def weakCTA_def maxScore_def
  isProminentCTA_def MIN_PROMINENT_WIDTH_def MIN_PROMINENT_HEIGHT_def digit_char_def
  number_toString.simps

text \<open>Reading the elements of an array succeeds exactly when none of them is \<open>null\<close>.\<close>

lemma read_elements_map_Some: "read_elements (map Some ctas) = Inr ctas"
  by (induction ctas) simp_all

lemma error_is_TypeError: "(e :: error) = TypeError"
  by (cases e)

lemma read_elements_Inr_iff: "read_elements elements = Inr ctas \<longleftrightarrow> elements = map Some ctas"
proof
  show "read_elements elements = Inr ctas \<Longrightarrow> elements = map Some ctas"
    by (induction elements arbitrary: ctas rule: read_elements.induct)
       (auto split: sum.splits)
  show "elements = map Some ctas \<Longrightarrow> read_elements elements = Inr ctas"
    by (simp add: read_elements_map_Some)
qed

lemma read_elements_Inl_iff: "read_elements elements = Inl e \<longleftrightarrow> None \<in> set elements"
  by (induction elements rule: read_elements.induct)
     (auto split: sum.splits simp: error_is_TypeError [of e])

lemma read_elements_returns_iff:
  "(\<exists>ctas. read_elements elements = Inr ctas) \<longleftrightarrow> None \<notin> set elements"
proof (cases "read_elements elements")
  case (Inl e)
  then show ?thesis using read_elements_Inl_iff [of elements e] by simp
next
  case (Inr ctas)
  then show ?thesis using read_elements_Inr_iff [of elements ctas] by auto
qed

text \<open>\<open>number_toString\<close> writes the decimal numeral of its argument.\<close>

lemma digit_value_digit_char: "d < 10 \<Longrightarrow> digit_value (digit_char d) = d"
proof -
  assume "d < 10"
  then consider "d = 0" | "d = 1" | "d = 2" | "d = 3" | "d = 4"
    | "d = 5" | "d = 6" | "d = 7" | "d = 8" | "d = 9"
    by atomize_elim arith
  then show ?thesis
    by cases (simp_all add: digit_value_def digit_char_def)
qed

lemma decimal_value_number_toString: "decimal_value (number_toString n) = n"
proof (induction n rule: number_toString.induct)
  case (1 n)
  show ?case
  proof (cases "n < 10")
    case True
    then show ?thesis
      by (simp add: number_toString.simps [of n] decimal_value_def digit_value_digit_char)
  next
    case False
    with 1 have "decimal_value (number_toString (n div 10)) = n div 10" by simp
    with False show ?thesis
      by (simp add: number_toString.simps [of n] decimal_value_def digit_value_digit_char)
  qed
qed

lemma number_toString_inject:
  assumes "number_toString m = number_toString n"
  shows "m = n"
proof -
  have "m = decimal_value (number_toString m)"
    by (simp only: decimal_value_number_toString)
  also have "\<dots> = decimal_value (number_toString n)"
    by (simp only: assms)
  also have "\<dots> = n"
    by (simp only: decimal_value_number_toString)
  finally show ?thesis .
qed

text \<open>The branches of \<open>analyze\<close> on an array of button objects.\<close>

lemma analyze_applicable:
  assumes "isApplicablePageType (type page)"
    and "aboveFold (metrics page) = Some af"
    and "ctaButtons af = CtaArray (map Some ctas)"
  shows "analyze now page =
     (if ctas = [] then createMissingCTAResult now page
      else if \<exists>c \<in> set ctas. prominent c then Inr createSuccessResult
      else Inr (createWeakCTAResult now page ctas))"
  using assms by (simp add: analyze_def Let_def filter_empty_conv read_elements_map_Some)

lemma analyze_result_shapes:
  assumes "analyze now page = Inr r"
  shows "r = createSkippedResult \<or> r = createSuccessResult \<or>
     (\<exists>ctas. r = createWeakCTAResult now page ctas) \<or>
     (\<not> passed r \<and> score r = 0 \<and> finding r \<noteq> None \<and> skipped r = None \<and> reason r = None)"
  using assms unfolding analyze_def createMissingCTAResult_def Let_def
  by (auto split: if_splits option.splits ctaButtons_value.splits sum.splits)

text \<open>
  What the quality check of \<open>analyze\<close> tests: on a home or product page with a
  non-empty list of buttons, full credit is granted exactly when some button carries
  the extractor's flag. The size of the button is not read.
\<close>

lemma analyze_full_credit_iff_flag:
  assumes "type page = ''home'' \<or> type page = ''product''"
    and "aboveFold (metrics page) = Some af"
    and "ctaButtons af = CtaArray (map Some ctas)"
    and "ctas \<noteq> []"
  shows "analyze now page =
           Inr \<lparr>passed = True, score = 15, finding = None, skipped = None, reason = None\<rparr>
         \<longleftrightarrow> (\<exists>c \<in> set ctas. prominent c)"
  using assms
  by (simp add: analyze_applicable isApplicablePageType_iff createSuccessResult_def
                createWeakCTAResult_eq maxScore_def)

text \<open>
  When no button of a non-empty list carries the extractor's flag, the result is the
  weak one, with score \<open>floor (15 * 0.47) = 7\<close>, severity \<open>med\<close>, and every button
  listed with its text, size and flag.
\<close>

lemma analyze_weak_cta:
  assumes "type page = ''home'' \<or> type page = ''product''"
    and "aboveFold (metrics page) = Some af"
    and "ctaButtons af = CtaArray (map Some ctas)"
    and "ctas \<noteq> []"
    and "list_all (\<lambda>cta. \<not> prominent cta) ctas"
  shows "analyze now page =
     Inr \<lparr>passed = False,
          score = 7,
          finding = Some
            \<lparr>finding_id = ''hero_cta_weak-'' @ page_id page @ ''-'' @ number_toString now,
             pageId = page_id page,
             ruleId = ''hero_cta_weak'',
             severity = Med,
             evidence =
               [(''ctaCount'', JNumber (of_nat (length ctas))),
                (''prominentCount'', JNumber 0),
                (''weakCTAs'', JArray (map
                   (\<lambda>cta. JObject [(''text'', JString (cta_text cta)),
                                    (''size'', JSize (cta_size cta)),
                                    (''prominent'', JBoolean (prominent cta))]) ctas))]\<rparr>,
          skipped = None,
          reason = None\<rparr>"
  using assms
  by (simp add: analyze_applicable isApplicablePageType_iff createWeakCTAResult_eq
                list_all_iff weakCTA_def)

text \<open>
  A present but malformed \<open>ctaButtons\<close>: an array with a \<open>null\<close> element raises, also
  when a flagged button comes first; \<open>{}\<close> raises; the empty string, whose \<open>length\<close> is
  0, gives the result of an empty list.
\<close>

lemma analyze_on_malformed_lists:
  "analyze 1700000000000 pageWithNullElement = Inl TypeError
   \<and> analyze 1700000000000 pageWithObjectForCtaButtons = Inl TypeError
   \<and> analyze 1700000000000 pageWithEmptyStringForCtaButtons =
       Inr \<lparr>passed = False,
            score = 0,
            finding = Some
              \<lparr>finding_id = ''hero_cta_missing-test-page-13-1700000000000'',
               pageId = ''test-page-13'',
               ruleId = ''hero_cta_missing'',
               severity = High,
               evidence =
                 [(''ctaCount'', JNumber 0),
                  (''pageType'', JString ''home''),
                  (''aboveFoldHeight'', JNumber 800)]\<rparr>,
            skipped = None,
            reason = None\<rparr>"
  by (simp add: rule_defs example_defs)

section \<open>The claims\<close>

text \<open>
  C1. On a home or product page with a non-empty CTA list, \<open>analyze\<close> should grant full
  credit only if some CTA has both the extractor's flag and the geometric minimum. The
  code filters on the flag alone: the home page whose only button is flagged but measures
  50 by 10 pixels gets \<open>passed = true\<close>, \<open>score = 15\<close> and no finding, although
  \<open>isProminentCTA\<close> rejects the button.
\<close>

theorem analyze_full_credit_on_flag_alone:
  "analyze 1700000000000 pageWithFlaggedSmallCTA =
     Inr \<lparr>passed = True, score = 15, finding = None, skipped = None, reason = None\<rparr>
   \<and> type pageWithFlaggedSmallCTA = ''home''
   \<and> aboveFold (metrics pageWithFlaggedSmallCTA) =
       Some \<lparr>ctaButtons = CtaArray [Some flaggedSmallCTA], aboveFold_height = Some 800\<rparr>
   \<and> prominent flaggedSmallCTA
   \<and> \<not> (width (cta_size flaggedSmallCTA) \<ge> 120 \<and> height (cta_size flaggedSmallCTA) \<ge> 35)
   \<and> \<not> isProminentCTA flaggedSmallCTA"
  by (simp add: rule_defs example_defs)

text \<open>
  C2, as stated: \<open>analyze\<close> never raises on a home or product page, and treats a missing
  \<open>aboveFold\<close> or \<open>ctaButtons\<close> like an empty CTA list. It does not: reading
  \<open>page.metrics.aboveFold.ctaButtons\<close> or \<open>ctaButtons.length\<close> raises a \<open>TypeError\<close>
  when \<open>aboveFold\<close> or \<open>ctaButtons\<close> is \<open>undefined\<close>.
\<close>

theorem analyze_raises_on_missing_field:
  "analyze 1700000000000 pageWithoutAboveFold = Inl TypeError
   \<and> analyze 1700000000000 pageWithoutCtaButtons = Inl TypeError
   \<and> type pageWithoutAboveFold = ''home'' \<and> type pageWithoutCtaButtons = ''product''"
  by (simp add: rule_defs example_defs)

text \<open>
  C2, amended: on a home or product page, \<open>analyze\<close> returns a result exactly when
  \<open>metrics.aboveFold\<close> is present and its \<open>ctaButtons\<close> is an array without a \<open>null\<close>
  element (or a value that is not an array and whose \<open>length\<close> is 0, as the empty
  string). In every other case, \<open>aboveFold\<close> or \<open>ctaButtons\<close> missing, \<open>ctaButtons\<close> not an
  array, a \<open>null\<close> element, it raises a \<open>TypeError\<close>. A missing \<open>aboveFold.height\<close> alone
  does not make it raise.
\<close>

theorem analyze_returns_iff_cta_list_readable:
  assumes "type page = ''home'' \<or> type page = ''product''"
  shows "((\<exists>r. analyze now page = Inr r) \<longleftrightarrow>
            (\<exists>af. aboveFold (metrics page) = Some af \<and>
               ((\<exists>elements. ctaButtons af = CtaArray elements \<and> None \<notin> set elements)
                \<or> ctaButtons af = CtaNonArray (JNumber 0))))
       \<and> ((analyze now page = Inl TypeError) \<longleftrightarrow>
            \<not> (\<exists>af. aboveFold (metrics page) = Some af \<and>
               ((\<exists>elements. ctaButtons af = CtaArray elements \<and> None \<notin> set elements)
                \<or> ctaButtons af = CtaNonArray (JNumber 0))))"
proof -
  let ?readable = "\<exists>af. aboveFold (metrics page) = Some af \<and>
      ((\<exists>elements. ctaButtons af = CtaArray elements \<and> None \<notin> set elements)
       \<or> ctaButtons af = CtaNonArray (JNumber 0))"
  from assms have applicable: "isApplicablePageType (type page)"
    by (simp add: isApplicablePageType_iff)
  have returns: "(\<exists>r. analyze now page = Inr r) \<longleftrightarrow> ?readable"
  proof (cases "aboveFold (metrics page)")
    case None
    with applicable show ?thesis by (simp add: analyze_def)
  next
    case (Some af)
    show ?thesis
    proof (cases "ctaButtons af")
      case CtaUndefined
      with applicable Some show ?thesis by (simp add: analyze_def)
    next
      case (CtaNonArray len)
      with applicable Some show ?thesis
        by (simp add: analyze_def createMissingCTAResult_def)
    next
      case (CtaArray elements)
      show ?thesis
      proof (cases "elements = []")
        case True
        with applicable Some CtaArray show ?thesis
          by (simp add: analyze_def createMissingCTAResult_def)
      next
        case False
        with applicable Some CtaArray
        have "(\<exists>r. analyze now page = Inr r) \<longleftrightarrow> (\<exists>ctas. read_elements elements = Inr ctas)"
          by (cases "read_elements elements") (simp_all add: analyze_def Let_def)
        with Some CtaArray show ?thesis
          by (simp add: read_elements_returns_iff)
      qed
    qed
  qed
  have "(analyze now page = Inl TypeError) \<longleftrightarrow> \<not> (\<exists>r. analyze now page = Inr r)"
    by (cases "analyze now page") (simp_all add: error_is_TypeError)
  with returns show ?thesis by simp
qed

theorem analyze_returns_iff_cta_list_readable_witness:
  "(type pageWithoutHeight = ''home'' \<or> type pageWithoutHeight = ''product'')
   \<and> aboveFold (metrics pageWithoutHeight) =
       Some \<lparr>ctaButtons = CtaArray [], aboveFold_height = None\<rparr>
   \<and> (\<exists>r. analyze 1700000000000 pageWithoutHeight = Inr r)
   \<and> (type pageWithNullElement = ''home'' \<or> type pageWithNullElement = ''product'')
   \<and> aboveFold (metrics pageWithNullElement) =
       Some \<lparr>ctaButtons = CtaArray [Some prominentCTA, None], aboveFold_height = Some 800\<rparr>
   \<and> analyze 1700000000000 pageWithNullElement = Inl TypeError"
proof -
  have h: "type pageWithoutHeight = ''home'' \<or> type pageWithoutHeight = ''product''"
    by (simp add: example_defs)
  have p: "aboveFold (metrics pageWithoutHeight) =
      Some \<lparr>ctaButtons = CtaArray [], aboveFold_height = None\<rparr>"
    by (simp add: example_defs)
  have h': "type pageWithNullElement = ''home'' \<or> type pageWithNullElement = ''product''"
    by (simp add: example_defs)
  have p': "aboveFold (metrics pageWithNullElement) =
      Some \<lparr>ctaButtons = CtaArray [Some prominentCTA, None], aboveFold_height = Some 800\<rparr>"
    by (simp add: example_defs)
  from analyze_returns_iff_cta_list_readable [OF h, of 1700000000000] p
  have r: "\<exists>r. analyze 1700000000000 pageWithoutHeight = Inr r"
    by simp
  from analyze_returns_iff_cta_list_readable [OF h', of 1700000000000] p'
  have r': "analyze 1700000000000 pageWithNullElement = Inl TypeError"
    by simp
  from h p r h' p' r' show ?thesis by simp
qed

text \<open>
  C3. On a home or product page whose CTA list is empty, \<open>analyze\<close> returns
  \<open>passed = false\<close>, \<open>score = 0\<close> and a finding with rule id \<open>hero_cta_missing\<close>,
  severity \<open>high\<close> and the evidence \<open>{ctaCount: 0, pageType, aboveFoldHeight}\<close>, where
  \<open>pageType\<close> is the type of the page and \<open>aboveFoldHeight\<close> is the number that
  \<open>metrics.aboveFold.height\<close> holds (\<open>undefined\<close> when it holds none).
\<close>

theorem analyze_missing_cta:
  assumes "type page = ''home'' \<or> type page = ''product''"
    and "aboveFold (metrics page) = Some af"
    and "ctaButtons af = CtaArray []"
  shows "analyze now page =
     Inr \<lparr>passed = False,
          score = 0,
          finding = Some
            \<lparr>finding_id = ''hero_cta_missing-'' @ page_id page @ ''-'' @ number_toString now,
             pageId = page_id page,
             ruleId = ''hero_cta_missing'',
             severity = High,
             evidence =
               [(''ctaCount'', JNumber 0),
                (''pageType'', JString (type page)),
                (''aboveFoldHeight'',
                   (case aboveFold_height af of
                      None \<Rightarrow> JUndefined
                    | Some h \<Rightarrow> JNumber h))]\<rparr>,
          skipped = None,
          reason = None\<rparr>"
  using assms
  by (auto simp: analyze_def isApplicablePageType_iff createMissingCTAResult_def createFinding_def)

theorem analyze_missing_cta_witness:
  "analyze 1700000000000 pageWithoutCTA =
     Inr \<lparr>passed = False,
          score = 0,
          finding = Some
            \<lparr>finding_id = ''hero_cta_missing-test-page-1-1700000000000'',
             pageId = ''test-page-1'',
             ruleId = ''hero_cta_missing'',
             severity = High,
             evidence =
               [(''ctaCount'', JNumber 0),
                (''pageType'', JString ''home''),
                (''aboveFoldHeight'', JNumber 800)]\<rparr>,
          skipped = None,
          reason = None\<rparr>
   \<and> analyze 1700000000000 pageWithoutHeight =
     Inr \<lparr>passed = False,
          score = 0,
          finding = Some
            \<lparr>finding_id = ''hero_cta_missing-test-page-10-1700000000000'',
             pageId = ''test-page-10'',
             ruleId = ''hero_cta_missing'',
             severity = High,
             evidence =
               [(''ctaCount'', JNumber 0),
                (''pageType'', JString ''home''),
                (''aboveFoldHeight'', JUndefined)]\<rparr>,
          skipped = None,
          reason = None\<rparr>"
  using analyze_missing_cta [of pageWithoutCTA
      "\<lparr>ctaButtons = CtaArray [], aboveFold_height = Some 800\<rparr>" 1700000000000]
    analyze_missing_cta [of pageWithoutHeight
      "\<lparr>ctaButtons = CtaArray [], aboveFold_height = None\<rparr>" 1700000000000]
  by (simp add: example_defs digit_char_def number_toString.simps)

text \<open>
  C4. On a home or product page with a non-empty CTA list none of whose entries is
  prominent (flag and geometric minimum), \<open>analyze\<close> should return the weak result with
  score 7. The product page with a large unflagged button and a flagged button of 50 by
  10 pixels has no such entry, and yet gets the full score 15 and no finding.
\<close>

theorem analyze_no_weak_result_for_flagged_small:
  "analyze 1700000000000 productPageMixedCTAs =
     Inr \<lparr>passed = True, score = 15, finding = None, skipped = None, reason = None\<rparr>
   \<and> type productPageMixedCTAs = ''product''
   \<and> aboveFold (metrics productPageMixedCTAs) =
       Some \<lparr>ctaButtons = CtaArray [Some largeUnflaggedCTA, Some flaggedSmallCTA],
             aboveFold_height = Some 800\<rparr>
   \<and> \<not> isProminentCTA largeUnflaggedCTA
   \<and> \<not> isProminentCTA flaggedSmallCTA"
  by (simp add: rule_defs example_defs)

text \<open>
  C5. On a page whose type is neither \<open>home\<close> nor \<open>product\<close>, \<open>analyze\<close> returns the
  skipped result whatever the metrics are, also when \<open>aboveFold\<close> or \<open>ctaButtons\<close> is
  absent: no metric is read before the decision.
\<close>

theorem analyze_skips_other_page_types:
  assumes "type page \<noteq> ''home''" and "type page \<noteq> ''product''"
  shows "analyze now page =
     Inr \<lparr>passed = False,
          score = 0,
          finding = None,
          skipped = Some True,
          reason = Some ''Rule only applies to home and product pages''\<rparr>"
  using assms by (simp add: analyze_def isApplicablePageType_iff createSkippedResult_def)

theorem analyze_skips_other_page_types_witness:
  "type collectionPageWithoutAboveFold = ''collection''
   \<and> aboveFold (metrics collectionPageWithoutAboveFold) = None
   \<and> analyze 1700000000000 collectionPageWithoutAboveFold =
       Inr \<lparr>passed = False,
            score = 0,
            finding = None,
            skipped = Some True,
            reason = Some ''Rule only applies to home and product pages''\<rparr>"
  using analyze_skips_other_page_types [of collectionPageWithoutAboveFold 1700000000000]
  by (simp add: example_defs)

text \<open>
  C6. Every result that \<open>analyze\<close> returns satisfies: if \<open>skipped\<close> is true then the
  finding is null and the score is 0, and if \<open>passed\<close> is true then the finding is null.
\<close>

theorem analyze_result_invariant:
  assumes "analyze now page = Inr r"
  shows "(skipped r = Some True \<longrightarrow> finding r = None \<and> score r = 0)
       \<and> (passed r \<longrightarrow> finding r = None)"
  using analyze_result_shapes [OF assms]
  by (auto simp: createSkippedResult_def createSuccessResult_def createWeakCTAResult_eq)

theorem analyze_result_invariant_witness:
  "analyze 1700000000000 collectionPage = Inr createSkippedResult
   \<and> skipped createSkippedResult = Some True
   \<and> finding createSkippedResult = None \<and> score createSkippedResult = 0
   \<and> analyze 1700000000000 pageWithCTA = Inr createSuccessResult
   \<and> passed createSuccessResult
   \<and> finding createSuccessResult = None"
proof -
  have s: "analyze 1700000000000 collectionPage = Inr createSkippedResult"
    by (simp add: analyze_def isApplicablePageType_iff example_defs)
  have p: "analyze 1700000000000 pageWithCTA = Inr createSuccessResult"
    by (simp add: analyze_def isApplicablePageType_iff example_defs)
  have k: "skipped createSkippedResult = Some True"
    by (simp add: createSkippedResult_def)
  have q: "passed createSuccessResult"
    by (simp add: createSuccessResult_def)
  from analyze_result_invariant [OF s] k
  have c: "finding createSkippedResult = None \<and> score createSkippedResult = 0"
    by simp
  from analyze_result_invariant [OF p] q
  have d: "finding createSuccessResult = None"
    by simp
  from s p k q c d show ?thesis by simp
qed

text \<open>
  C7. The score of every result of the rule lies between 0 and the rule's \<open>maxScore\<close>,
  which is 15. (\<open>HeroCTARule\<close> is the only rule of the repository.)
\<close>

theorem analyze_score_bounds:
  assumes "analyze now page = Inr r"
  shows "0 \<le> score r \<and> score r \<le> maxScore \<and> maxScore = 15"
  using analyze_result_shapes [OF assms]
  by (auto simp: createSkippedResult_def createSuccessResult_def createWeakCTAResult_eq
                 maxScore_def)

theorem analyze_score_bounds_witness:
  "analyze 1700000000000 pageWithWeakCTA =
     Inr (createWeakCTAResult 1700000000000 pageWithWeakCTA [smallCTA])
   \<and> score (createWeakCTAResult 1700000000000 pageWithWeakCTA [smallCTA]) = 7
   \<and> 0 \<le> score (createWeakCTAResult 1700000000000 pageWithWeakCTA [smallCTA])
   \<and> score (createWeakCTAResult 1700000000000 pageWithWeakCTA [smallCTA]) \<le> maxScore
   \<and> maxScore = 15"
proof -
  have w: "analyze 1700000000000 pageWithWeakCTA =
      Inr (createWeakCTAResult 1700000000000 pageWithWeakCTA [smallCTA])"
    by (simp add: analyze_def isApplicablePageType_iff example_defs)
  have v: "score (createWeakCTAResult 1700000000000 pageWithWeakCTA [smallCTA]) = 7"
    by (simp add: createWeakCTAResult_eq)
  from analyze_score_bounds [OF w] w v show ?thesis by simp
qed




text \<open>
  C9. \<open>isProminentCTA\<close> holds of a button exactly when the button is flagged, at least
  120 pixels wide and at least 35 pixels high. The flagged button of 200 by 50 is
  prominent; the unflagged one of 80 by 20 is not; neither is the unflagged one of 300
  by 60.
\<close>

theorem isProminentCTA_iff:
  "(isProminentCTA cta \<longleftrightarrow>
      prominent cta \<and> width (cta_size cta) \<ge> 120 \<and> height (cta_size cta) \<ge> 35)
   \<and> isProminentCTA prominentCTA
   \<and> \<not> isProminentCTA smallCTA
   \<and> \<not> isProminentCTA largeUnflaggedCTA"
  by (auto simp: isProminentCTA_def MIN_PROMINENT_WIDTH_def MIN_PROMINENT_HEIGHT_def
                 example_defs)

text \<open>
  C10. The score of every result of \<open>analyze\<close> is 0, 7 or 15; \<open>passed\<close> is true exactly
  when the score is 15; a result that is not passed has score 0 or 7; a result that is
  skipped or carries a finding is not passed.
\<close>

theorem analyze_score_values:
  assumes "analyze now page = Inr r"
  shows "(score r = 0 \<or> score r = 7 \<or> score r = 15)
       \<and> (passed r \<longleftrightarrow> score r = 15)
       \<and> (\<not> passed r \<longrightarrow> score r = 0 \<or> score r = 7)
       \<and> (skipped r = Some True \<or> finding r \<noteq> None \<longrightarrow> \<not> passed r)"
  using analyze_result_shapes [OF assms]
  by (auto simp: createSkippedResult_def createSuccessResult_def createWeakCTAResult_eq
                 maxScore_def)

theorem analyze_score_values_witness:
  "analyze 1700000000000 pageWithWeakCTA =
     Inr (createWeakCTAResult 1700000000000 pageWithWeakCTA [smallCTA])
   \<and> finding (createWeakCTAResult 1700000000000 pageWithWeakCTA [smallCTA]) \<noteq> None
   \<and> \<not> passed (createWeakCTAResult 1700000000000 pageWithWeakCTA [smallCTA])
   \<and> score (createWeakCTAResult 1700000000000 pageWithWeakCTA [smallCTA]) = 7
   \<and> analyze 1700000000000 pageWithCTA = Inr createSuccessResult
   \<and> passed createSuccessResult
   \<and> score createSuccessResult = 15
   \<and> analyze 1700000000000 collectionPage = Inr createSkippedResult
   \<and> skipped createSkippedResult = Some True
   \<and> \<not> passed createSkippedResult
   \<and> score createSkippedResult = 0"
proof -
  have w: "analyze 1700000000000 pageWithWeakCTA =
      Inr (createWeakCTAResult 1700000000000 pageWithWeakCTA [smallCTA])"
    by (simp add: analyze_def isApplicablePageType_iff example_defs)
  have p: "analyze 1700000000000 pageWithCTA = Inr createSuccessResult"
    by (simp add: analyze_def isApplicablePageType_iff example_defs)
  have s: "analyze 1700000000000 collectionPage = Inr createSkippedResult"
    by (simp add: analyze_def isApplicablePageType_iff example_defs)
  have fw: "finding (createWeakCTAResult 1700000000000 pageWithWeakCTA [smallCTA]) \<noteq> None"
    and sw: "score (createWeakCTAResult 1700000000000 pageWithWeakCTA [smallCTA]) \<noteq> 0"
    by (simp_all add: createWeakCTAResult_eq)
  have pp: "passed createSuccessResult"
    by (simp add: createSuccessResult_def)
  have ks: "skipped createSkippedResult = Some True"
    and ss: "score createSkippedResult \<noteq> 7"
    by (simp_all add: createSkippedResult_def)
  from analyze_score_values [OF w] fw sw
  have a: "\<not> passed (createWeakCTAResult 1700000000000 pageWithWeakCTA [smallCTA])
      \<and> score (createWeakCTAResult 1700000000000 pageWithWeakCTA [smallCTA]) = 7"
    by auto
  from analyze_score_values [OF p] pp
  have b: "score createSuccessResult = 15"
    by auto
  from analyze_score_values [OF s] ks ss
  have c: "\<not> passed createSkippedResult \<and> score createSkippedResult = 0"
    by auto
  from w p s fw pp ks a b c show ?thesis by simp
qed

end
